theory Spec2Isabelle
  imports Complex_Main "HOL-Library.AList"
begin

section \<open>Python values\<close>

text \<open>
  A Python float is a finite number, an infinity or not-a-number. Finite values are
  rationals; the rounding of an arithmetic result to binary64 is a parameter \<open>rnd\<close> of
  the operations (it may return an infinity on overflow), so nothing below depends on how
  a result is rounded. The two zeros are not distinguished.
\<close>

datatype pyfloat = Finite rat | PosInf | NegInf | NaN

text \<open>Python's \<open>==\<close> and \<open><\<close> on floats: every comparison with NaN is false.\<close>

fun float_eq :: "pyfloat \<Rightarrow> pyfloat \<Rightarrow> bool" where
  "float_eq NaN _ = False"
| "float_eq _ NaN = False"
| "float_eq a b = (a = b)"

fun float_lt :: "pyfloat \<Rightarrow> pyfloat \<Rightarrow> bool" where
  "float_lt NaN _ = False"
| "float_lt _ NaN = False"
| "float_lt (Finite x) (Finite y) = (x < y)"
| "float_lt (Finite x) PosInf = True"
| "float_lt NegInf (Finite y) = True"
| "float_lt NegInf PosInf = True"
| "float_lt _ _ = False"

fun float_mul :: "(rat \<Rightarrow> pyfloat) \<Rightarrow> pyfloat \<Rightarrow> pyfloat \<Rightarrow> pyfloat" where
  "float_mul rnd NaN _ = NaN"
| "float_mul rnd _ NaN = NaN"
| "float_mul rnd (Finite x) (Finite y) = rnd (x * y)"
| "float_mul rnd (Finite x) PosInf = (if x = 0 then NaN else if 0 < x then PosInf else NegInf)"
| "float_mul rnd (Finite x) NegInf = (if x = 0 then NaN else if 0 < x then NegInf else PosInf)"
| "float_mul rnd PosInf (Finite y) = (if y = 0 then NaN else if 0 < y then PosInf else NegInf)"
| "float_mul rnd NegInf (Finite y) = (if y = 0 then NaN else if 0 < y then NegInf else PosInf)"
| "float_mul rnd PosInf PosInf = PosInf"
| "float_mul rnd NegInf NegInf = PosInf"
| "float_mul rnd PosInf NegInf = NegInf"
| "float_mul rnd NegInf PosInf = NegInf"

datatype exc =
    ValueError | NoDataError | PCSEError | KeyError | TypeError | RuntimeError
  | OSError | ZeroDivisionError | OtherError string

text \<open>
  An exception is identified with the class the handlers of this module match it as:
  an instance of a subclass of \<open>ValueError\<close> is \<open>ValueError\<close>, \<open>IOError\<close> and
  \<open>EnvironmentError\<close> are \<open>OSError\<close>, and a class this module never names is
  \<open>OtherError\<close> with its name. \<open>NoDataError\<close> derives from \<open>PCSEError\<close>, which
  no handler of the module names.
\<close>

definition bindE :: "exc + 'a \<Rightarrow> ('a \<Rightarrow> exc + 'b) \<Rightarrow> exc + 'b" where
  "bindE m f = (case m of Inl e \<Rightarrow> Inl e | Inr x \<Rightarrow> f x)"

text \<open>Float division raises on a zero divisor, whatever the dividend.\<close>

fun float_div :: "(rat \<Rightarrow> pyfloat) \<Rightarrow> pyfloat \<Rightarrow> pyfloat \<Rightarrow> exc + pyfloat" where
  "float_div rnd a (Finite y) =
     (if y = 0 then Inl ZeroDivisionError
      else case a of
        Finite x \<Rightarrow> Inr (rnd (x / y))
      | PosInf \<Rightarrow> Inr (if 0 < y then PosInf else NegInf)
      | NegInf \<Rightarrow> Inr (if 0 < y then NegInf else PosInf)
      | NaN \<Rightarrow> Inr NaN)"
| "float_div rnd (Finite x) PosInf = Inr (Finite 0)"
| "float_div rnd (Finite x) NegInf = Inr (Finite 0)"
| "float_div rnd _ _ = Inr NaN"

datatype date = Date int int int

datatype pyval =
    PNone | PBool bool | PInt int | PFloat pyfloat | PStr string | PDate date

type_synonym pydict = "(string \<times> pyval) list"

text \<open>
  A \<open>dict\<close> keeps its keys in insertion order, and assigning to a key that is present
  keeps the key's place: an association list with distinct keys and \<open>AList.update\<close>.
  Reading a missing key raises \<open>KeyError\<close>.
\<close>

definition dict_get :: "(string \<times> 'v) list \<Rightarrow> string \<Rightarrow> exc + 'v" where
  "dict_get d k = (case map_of d k of None \<Rightarrow> Inl KeyError | Some v \<Rightarrow> Inr v)"

definition dict_of_pairs :: "(string \<times> 'v) list \<Rightarrow> (string \<times> 'v) list" where
  "dict_of_pairs ps = foldl (\<lambda>d (k, v). AList.update k v d) [] ps"

text \<open>The number a value counts as in a comparison with a number, if it is one.\<close>

fun as_float :: "pyval \<Rightarrow> pyfloat option" where
  "as_float (PFloat f) = Some f"
| "as_float (PInt i) = Some (Finite (of_int i))"
| "as_float (PBool b) = Some (Finite (if b then 1 else 0))"
| "as_float _ = None"

definition py_eq :: "pyval \<Rightarrow> pyval \<Rightarrow> bool" where
  "py_eq a b =
     (case (as_float a, as_float b) of
        (Some x, Some y) \<Rightarrow> float_eq x y
      | (None, None) \<Rightarrow> a = b
      | _ \<Rightarrow> False)"

text \<open>
  \<open>i < v\<close> and \<open>v < i\<close> for an int literal \<open>i\<close>: a number is compared by value, any
  other operand raises \<open>TypeError\<close>.
\<close>

definition int_lt_val :: "int \<Rightarrow> pyval \<Rightarrow> exc + bool" where
  "int_lt_val i v =
     (case as_float v of None \<Rightarrow> Inl TypeError | Some f \<Rightarrow> Inr (float_lt (Finite (of_int i)) f))"

definition val_lt_int :: "pyval \<Rightarrow> int \<Rightarrow> exc + bool" where
  "val_lt_int v i =
     (case as_float v of None \<Rightarrow> Inl TypeError | Some f \<Rightarrow> Inr (float_lt f (Finite (of_int i))))"

text \<open>Truthiness, as \<open>bool(v)\<close> computes it.\<close>

fun py_bool :: "pyval \<Rightarrow> bool" where
  "py_bool PNone = False"
| "py_bool (PBool b) = b"
| "py_bool (PInt i) = (i \<noteq> 0)"
| "py_bool (PFloat f) = (f \<noteq> Finite 0)"
| "py_bool (PStr s) = (s \<noteq> [])"
| "py_bool (PDate d) = True"

section \<open>The Python runtime and the rest of PCSE\<close>

text \<open>
  What the module calls but does not define is a parameter of the model. The first record
  holds the builtins and standard-library functions: \<open>float\<close> on a string and
  \<open>strptime(...).date()\<close> (\<open>None\<close> where they raise \<open>ValueError\<close>), \<open>str\<close>,
  \<open>csv.reader\<close> from a delimiter and the remaining lines of a file to its rows, and the
  functions of \<open>os.path\<close>.
\<close>

record pyrt =
  rnd :: "rat \<Rightarrow> pyfloat"
  float_of_str :: "string \<Rightarrow> pyfloat option"
  strptime_date :: "string \<Rightarrow> string \<Rightarrow> date option"
  str_of :: "pyval \<Rightarrow> string"
  csv_reader :: "string \<Rightarrow> string list \<Rightarrow> exc + string list list"
  abspath :: "string \<Rightarrow> string"
  basename :: "string \<Rightarrow> string"
  splitext :: "string \<Rightarrow> string \<times> string"
  path_join :: "string \<Rightarrow> string \<Rightarrow> string"

text \<open>\<open>float(x)\<close>.\<close>

fun py_float :: "pyrt \<Rightarrow> pyval \<Rightarrow> exc + pyfloat" where
  "py_float rt (PStr s) = (case float_of_str rt s of None \<Rightarrow> Inl ValueError | Some f \<Rightarrow> Inr f)"
| "py_float rt (PFloat f) = Inr f"
| "py_float rt (PInt i) =
     (case rnd rt (of_int i) of Finite q \<Rightarrow> Inr (Finite q) | _ \<Rightarrow> Inl (OtherError ''OverflowError''))"
| "py_float rt (PBool b) = Inr (Finite (if b then 1 else 0))"
| "py_float rt PNone = Inl TypeError"
| "py_float rt (PDate d) = Inl TypeError"

section \<open>The provider object\<close>

datatype logmsg =
    FailedReadingRow "string list"
  | FailedWriteCache string exc

text \<open>
  The attributes of a \<open>CSVWeatherDataProvider\<close>, with the store of the base class.
  The last two fields record what the object sent to its logger and what it printed.
\<close>

record 's provider =
  class_name :: string
  dateformat :: string
  ETmodel :: string
  fp_csv_fname :: string
  nodata_value :: int
  description :: "string list"
  longitude :: pyfloat
  latitude :: pyfloat
  elevation :: pyfloat
  angstA :: pyfloat
  angstB :: pyfloat
  has_sunshine :: bool
  store :: 's
  logged :: "logmsg list"
  printed :: "logmsg list"

text \<open>A file has a modification time and, when it is read as text, its lines.\<close>

record fileinfo =
  st_mtime :: rat
  readlines :: "string list"

type_synonym filesystem = "string \<rightharpoonup> fileinfo"

text \<open>
  An open text file is the list of the lines not read yet: reading a line removes the
  first one, seeking puts other lines there. A closed file raises \<open>ValueError\<close> when
  it is read.
\<close>

datatype textfile = OpenFile "string list" | ClosedFile

text \<open>
  What a line run by \<open>exec\<close> inside \<open>_read_meta\<close> can read and change: the names
  bound so far, the file \<open>csv_file\<close>, the object \<open>self\<close> and the file system. The
  variables of the loop itself, \<open>line\<close> and \<open>timeout\<close>, are locals of the function,
  which \<open>exec\<close> cannot rebind.
\<close>

record 's frame =
  locals_of :: "string \<rightharpoonup> pyval"
  file_of :: textfile
  self_of :: "'s provider"
  fs_of :: filesystem

text \<open>A line that only binds names: \<open>g\<close> gives the new bindings from the line and the old ones.\<close>

definition binds ::
  "(string \<Rightarrow> (string \<rightharpoonup> pyval) \<Rightarrow> exc + (string \<rightharpoonup> pyval)) \<Rightarrow> string \<Rightarrow> 's frame \<Rightarrow> exc + 's frame" where
  "binds g line fr = bindE (g line (locals_of fr)) (\<lambda>locs. Inr (fr\<lparr>locals_of := locs\<rparr>))"

text \<open>
  The second record holds what works on the provider. First \<open>exec\<close> on one line of
  text, from the frame it runs in to the frame it leaves, or the exception the line raises.
  Then what the module imports from the rest of PCSE: the object
  \<open>WeatherDataProvider.__init__\<close> leaves, \<open>settings.METEO_CACHE_DIR\<close>,
  \<open>check_angstromAB\<close>, \<open>angstrom\<close>, \<open>reference_ET\<close> from its keyword arguments,
  the constructor of \<open>WeatherDataContainer\<close> from its keyword arguments, and the
  methods \<open>_store_WeatherDataContainer\<close>, \<open>_load\<close> and \<open>_dump\<close> of the base
  class. Each of them either returns or raises; \<open>_dump\<close> also leaves a file system.
\<close>

record ('s, 'w) pcse =
  exec_line :: "string \<Rightarrow> 's frame \<Rightarrow> exc + 's frame"
  WeatherDataProvider_init :: "'s provider"
  METEO_CACHE_DIR :: string
  check_angstromAB :: "pyfloat \<Rightarrow> pyfloat \<Rightarrow> exc + (pyfloat \<times> pyfloat)"
  angstrom :: "pyval \<Rightarrow> pyfloat \<Rightarrow> pyval \<Rightarrow> pyfloat \<Rightarrow> pyfloat \<Rightarrow> exc + pyval"
  reference_ET :: "pydict \<Rightarrow> exc + (pyfloat \<times> pyfloat \<times> pyfloat)"
  WeatherDataContainer :: "pydict \<Rightarrow> exc + 'w"
  store_WeatherDataContainer :: "'s \<Rightarrow> 'w \<Rightarrow> pyval \<Rightarrow> exc + 's"
  load :: "filesystem \<Rightarrow> string \<Rightarrow> 's provider \<Rightarrow> exc + 's provider"
  dump :: "filesystem \<Rightarrow> string \<Rightarrow> 's provider \<Rightarrow> filesystem \<times> exc option"

section \<open>Column names and conversions\<close>

definition translator :: "(string \<times> string list) list" where
  "translator =
     [(''DAY'', [''w_date'', ''DAY'']),
      (''IRRAD'', [''srad'', ''RADIATION'', ''IRRAD'']),
      (''TMIN'', [''tmin'', ''TEMPERATURE_MIN'', ''TMIN'']),
      (''TMAX'', [''tmax'', ''TEMPERATURE_MAX'', ''TMAX'']),
      (''VAP'', [''vprs_tx'', ''VAPOURPRESSURE'', ''VAP'']),
      (''WIND'', [''wind'', ''WINDSPEED'', ''WIND'']),
      (''RAIN'', [''rain'', ''PRECIPITATION'', ''RAIN'']),
      (''SNOWDEPTH'', [''snowdepth'', ''SNOWDEPTH''])]"

text \<open>
  \<open>''.join(key for key, value in self.translator.items() if item in value)\<close>: the
  canonical names whose aliases hold the label, concatenated.
\<close>

definition translate_label :: "string \<Rightarrow> string" where
  "translate_label item =
     concat (map fst (filter (\<lambda>(key, value). List.member value item) translator))"

definition NoConversion :: "pyrt \<Rightarrow> pyval \<Rightarrow> exc + pyval" where
  "NoConversion rt x = bindE (py_float rt x) (\<lambda>f. Inr (PFloat f))"

definition kJ_to_J :: "pyrt \<Rightarrow> pyval \<Rightarrow> exc + pyval" where
  "kJ_to_J rt x = bindE (py_float rt x) (\<lambda>f. Inr (PFloat (float_mul (rnd rt) f (Finite 1000))))"

definition mm_to_cm :: "pyrt \<Rightarrow> pyval \<Rightarrow> exc + pyval" where
  "mm_to_cm rt x =
     bindE (py_float rt x) (\<lambda>f. bindE (float_div (rnd rt) f (Finite 10)) (\<lambda>g. Inr (PFloat g)))"

definition csvdate_to_date :: "pyrt \<Rightarrow> pyval \<Rightarrow> string \<Rightarrow> exc + pyval" where
  "csvdate_to_date rt x datefmt =
     (case x of
        PStr s \<Rightarrow> (case strptime_date rt s datefmt of None \<Rightarrow> Inl ValueError | Some day \<Rightarrow> Inr (PDate day))
      | _ \<Rightarrow> Inl TypeError)"

text \<open>
  A conversion function takes one argument or two; calling it with the other number of
  arguments raises \<open>TypeError\<close>.
\<close>

datatype conversion =
    Fun1 "pyval \<Rightarrow> exc + pyval"
  | Fun2 "pyval \<Rightarrow> string \<Rightarrow> exc + pyval"

fun call1 :: "conversion \<Rightarrow> pyval \<Rightarrow> exc + pyval" where
  "call1 (Fun1 f) x = f x"
| "call1 (Fun2 f) x = Inl TypeError"

fun call2 :: "conversion \<Rightarrow> pyval \<Rightarrow> string \<Rightarrow> exc + pyval" where
  "call2 (Fun2 f) x y = f x y"
| "call2 (Fun1 f) x y = Inl TypeError"

definition obs_conversions :: "pyrt \<Rightarrow> (string \<times> conversion) list" where
  "obs_conversions rt =
     [(''TMAX'', Fun1 (NoConversion rt)),
      (''TMIN'', Fun1 (NoConversion rt)),
      (''IRRAD'', Fun1 (kJ_to_J rt)),
      (''DAY'', Fun2 (csvdate_to_date rt)),
      (''VAP'', Fun1 (NoConversion rt)),
      (''WIND'', Fun1 (NoConversion rt)),
      (''RAIN'', Fun1 (mm_to_cm rt)),
      (''SNOWDEPTH'', Fun1 (NoConversion rt))]"

section \<open>Reading the observations\<close>

text \<open>
  The loop over \<open>d.keys()\<close> of \<open>_read_observations\<close>: each value is replaced by its
  conversion, then compared with \<open>float('NaN')\<close>.
\<close>

fun convert_fields :: "pyrt \<Rightarrow> string \<Rightarrow> string list \<Rightarrow> pydict \<Rightarrow> exc + pydict" where
  "convert_fields rt datefmt [] d = Inr d"
| "convert_fields rt datefmt (label # labels) d =
     bindE (dict_get (obs_conversions rt) label) (\<lambda>func.
     bindE (dict_get d label) (\<lambda>x.
     bindE (if label = ''DAY'' then call2 func x datefmt else call1 func x) (\<lambda>y.
       if py_eq y (PFloat NaN) \<and> label \<noteq> ''SNOWDEPTH'' then Inl NoDataError
       else convert_fields rt datefmt labels (AList.update label y d))))"

text \<open>
  A call \<open>f(K1=v1, ..., **d)\<close>: the keyword arguments written out, then those of
  \<open>d\<close>; a key of \<open>d\<close> that is also written out raises \<open>TypeError\<close>.
\<close>

definition call_kwargs :: "pydict \<Rightarrow> pydict \<Rightarrow> exc + pydict" where
  "call_kwargs named d =
     (if filter (\<lambda>(k, v). map_of named k \<noteq> None) d \<noteq> [] then Inl TypeError
      else Inr (named @ d))"

text \<open>
  The test on \<open>self.has_sunshine\<close> and \<open>0 < d['IRRAD'] < 24\<close>, and the call of
  \<open>angstrom\<close> it guards.
\<close>

definition sunshine_to_irrad :: "('s, 'w) pcse \<Rightarrow> 's provider \<Rightarrow> pydict \<Rightarrow> exc + pydict" where
  "sunshine_to_irrad E self d =
     (if has_sunshine self then
        bindE (dict_get d ''IRRAD'') (\<lambda>irrad.
        bindE (int_lt_val 0 irrad) (\<lambda>positive.
        if \<not> positive then Inr d else
        bindE (val_lt_int irrad 24) (\<lambda>below.
        if \<not> below then Inr d else
        bindE (dict_get d ''DAY'') (\<lambda>day.
        bindE (dict_get d ''IRRAD'') (\<lambda>hours.
        bindE (angstrom E day (latitude self) hours (angstA self) (angstB self)) (\<lambda>v.
        Inr (AList.update ''IRRAD'' v d)))))))
      else Inr d)"

definition reference_ET_named :: "'s provider \<Rightarrow> pydict" where
  "reference_ET_named self =
     [(''LAT'', PFloat (latitude self)), (''ELEV'', PFloat (elevation self)),
      (''ANGSTA'', PFloat (angstA self)), (''ANGSTB'', PFloat (angstB self))]"

definition container_named :: "'s provider \<Rightarrow> pydict" where
  "container_named self =
     [(''LAT'', PFloat (latitude self)), (''LON'', PFloat (longitude self)),
      (''ELEV'', PFloat (elevation self))]"

text \<open>
  The dict of a row after the header row: the labels of the header zipped with the
  cells, without the entry of the empty label.
\<close>

definition raw_record :: "string list \<Rightarrow> string list \<Rightarrow> pydict" where
  "raw_record header row =
     (let d = dict_of_pairs (zip header (map PStr row))
      in if map_of d [] \<noteq> None then AList.delete [] d else d)"

text \<open>
  The body of the \<open>try\<close> for a row after the header row: the dict of the row, the
  conversions, the radiation from sunshine hours, the reference evapotranspiration and
  the container stored under the row's day.
\<close>

definition data_row ::
  "pyrt \<Rightarrow> ('s, 'w) pcse \<Rightarrow> string \<Rightarrow> 's provider \<Rightarrow> string list \<Rightarrow> string list \<Rightarrow> exc + 's provider" where
  "data_row rt E datefmt self header row =
     (let d1 = raw_record header row
      in bindE (convert_fields rt datefmt (map fst d1) d1) (\<lambda>d2.
         bindE (sunshine_to_irrad E self d2) (\<lambda>d3.
         bindE (call_kwargs (reference_ET_named self) d3) (\<lambda>kw.
         bindE (reference_ET E kw) (\<lambda>(e0, es0, et0).
         bindE (float_div (rnd rt) e0 (Finite 10)) (\<lambda>v0.
         bindE (float_div (rnd rt) es0 (Finite 10)) (\<lambda>v1.
         bindE (float_div (rnd rt) et0 (Finite 10)) (\<lambda>v2.
         let d4 = AList.update ''ET0'' (PFloat v2)
                    (AList.update ''ES0'' (PFloat v1) (AList.update ''E0'' (PFloat v0) d3))
         in bindE (call_kwargs (container_named self) d4) (\<lambda>kw'.
            bindE (WeatherDataContainer E kw') (\<lambda>wdc.
            bindE (dict_get d4 ''DAY'') (\<lambda>day.
            bindE (store_WeatherDataContainer E (store self) wdc day) (\<lambda>s.
            Inr (self\<lparr>store := s\<rparr>)))))))))))))"

text \<open>What the handler of \<open>ValueError\<close> does: a warning to the logger, the same text printed.\<close>

definition skip_row :: "string list \<Rightarrow> 's provider \<Rightarrow> 's provider" where
  "skip_row row self =
     self\<lparr>logged := logged self @ [FailedReadingRow row],
          printed := printed self @ [FailedReadingRow row]\<rparr>"

text \<open>
  The loop over the rows. The first row is the header row. The handler of
  \<open>NoDataError\<close> formats its message with \<open>%S\<close>, which raises \<open>ValueError\<close>
  inside the handler: that exception leaves the loop.
\<close>

fun read_rows ::
  "pyrt \<Rightarrow> ('s, 'w) pcse \<Rightarrow> string \<Rightarrow> string list list \<Rightarrow> bool \<Rightarrow> string list \<Rightarrow> 's provider
     \<Rightarrow> exc + 's provider" where
  "read_rows rt E datefmt [] headerrow header self = Inr self"
| "read_rows rt E datefmt (row # rows) headerrow header self =
     (if headerrow then read_rows rt E datefmt rows False (map translate_label row) self
      else case data_row rt E datefmt self header row of
          Inr self' \<Rightarrow> read_rows rt E datefmt rows False header self'
        | Inl ValueError \<Rightarrow> read_rows rt E datefmt rows False header (skip_row row self)
        | Inl NoDataError \<Rightarrow> Inl ValueError
        | Inl e \<Rightarrow> Inl e)"

text \<open>\<open>_read_observations\<close>: the rows \<open>csv.reader\<close> makes of the rest of the file, and the loop.\<close>

definition read_observations ::
  "pyrt \<Rightarrow> ('s, 'w) pcse \<Rightarrow> 's provider \<Rightarrow> textfile \<Rightarrow> string \<Rightarrow> string \<Rightarrow> exc + 's provider" where
  "read_observations rt E self csv_file delimiter datefmt =
     (case csv_file of
        ClosedFile \<Rightarrow> Inl ValueError
      | OpenFile ls \<Rightarrow>
          bindE (csv_reader rt delimiter ls) (\<lambda>obs. read_rows rt E datefmt obs True [] self))"

section \<open>Reading the meta header\<close>

definition startswith :: "string \<Rightarrow> string \<Rightarrow> bool" where
  "startswith s p = (take (length p) s = p)"

text \<open>\<open>readline\<close> returns the next line, and the empty string at the end of the file.\<close>

fun readline :: "textfile \<Rightarrow> exc + (string \<times> textfile)" where
  "readline ClosedFile = Inl ValueError"
| "readline (OpenFile []) = Inr ([], OpenFile [])"
| "readline (OpenFile (l # ls)) = Inr (l, OpenFile ls)"

text \<open>
  The \<open>while\<close> loop of \<open>_read_meta\<close>. It leaves when the line starts with the
  marker; otherwise it raises \<open>RuntimeError\<close> when the clock has passed the deadline of
  30 seconds, and else runs \<open>exec\<close> on the line and reads the next one from the file as
  the line left it. The clock is the number \<open>n\<close> of passes that begin before the
  deadline.
\<close>

fun read_meta_lines :: "('s, 'w) pcse \<Rightarrow> nat \<Rightarrow> string \<Rightarrow> 's frame \<Rightarrow> exc + 's frame" where
  "read_meta_lines E 0 line fr =
     (if startswith line ''## Daily weather data'' then Inr fr else Inl RuntimeError)"
| "read_meta_lines E (Suc n) line fr =
     (if startswith line ''## Daily weather data'' then Inr fr
      else bindE (exec_line E line fr) (\<lambda>fr1.
           bindE (readline (file_of fr1)) (\<lambda>nxt.
           read_meta_lines E n (fst nxt) (fr1\<lparr>file_of := snd nxt\<rparr>))))"

definition locs_get :: "(string \<rightharpoonup> pyval) \<Rightarrow> string \<Rightarrow> exc + pyval" where
  "locs_get locs k = (case locs k of None \<Rightarrow> Inl KeyError | Some v \<Rightarrow> Inr v)"

text \<open>
  \<open>_read_meta\<close>: the loop, then the attributes from the bindings, in the order of the
  source. It returns the object, the file as the loop left it and the file system.
\<close>

definition read_meta ::
  "pyrt \<Rightarrow> ('s, 'w) pcse \<Rightarrow> nat \<Rightarrow> 's provider \<Rightarrow> textfile \<Rightarrow> filesystem
     \<Rightarrow> exc + ('s provider \<times> textfile \<times> filesystem)" where
  "read_meta rt E n self csv_file fs =
     bindE (read_meta_lines E n []
              \<lparr>locals_of = Map.empty, file_of = csv_file, self_of = self, fs_of = fs\<rparr>) (\<lambda>fr.
     bindE (locs_get (locals_of fr) ''Country'') (\<lambda>country.
     bindE (locs_get (locals_of fr) ''Station'') (\<lambda>station.
     bindE (locs_get (locals_of fr) ''Description'') (\<lambda>descr.
     bindE (locs_get (locals_of fr) ''Source'') (\<lambda>source.
     bindE (locs_get (locals_of fr) ''Contact'') (\<lambda>contact.
     bindE (bindE (locs_get (locals_of fr) ''Longitude'') (py_float rt)) (\<lambda>lon.
     bindE (bindE (locs_get (locals_of fr) ''Latitude'') (py_float rt)) (\<lambda>lat.
     bindE (bindE (locs_get (locals_of fr) ''Elevation'') (py_float rt)) (\<lambda>elev.
     bindE (bindE (locs_get (locals_of fr) ''AngstromA'') (py_float rt)) (\<lambda>a.
     bindE (bindE (locs_get (locals_of fr) ''AngstromB'') (py_float rt)) (\<lambda>b.
     bindE (check_angstromAB E a b) (\<lambda>(a', b').
     bindE (locs_get (locals_of fr) ''HasSunshine'') (\<lambda>sunshine.
     Inr ((self_of fr)\<lparr>nodata_value := - 99,
               description :=
                 [''Weather data for:'',
                  ''Country: '' @ str_of rt country,
                  ''Station: '' @ str_of rt station,
                  ''Description: '' @ str_of rt descr,
                  ''Source: '' @ str_of rt source,
                  ''Contact: '' @ str_of rt contact],
               longitude := lon, latitude := lat, elevation := elev,
               angstA := a', angstB := b',
               has_sunshine := py_bool sunshine\<rparr>,
          file_of fr, fs_of fr))))))))))))))"

section \<open>The cache file\<close>

definition get_cache_filename :: "pyrt \<Rightarrow> ('s, 'w) pcse \<Rightarrow> 's provider \<Rightarrow> string \<Rightarrow> string" where
  "get_cache_filename rt E self csv_fname =
     (let (filename, ext) = splitext rt (basename rt csv_fname);
          tmp = class_name self @ ''_'' @ filename @ ''.cache''
      in path_join rt (METEO_CACHE_DIR E) tmp)"

text \<open>\<open>os.stat(p).st_mtime\<close> raises for a path that names no file.\<close>

definition stat_mtime :: "filesystem \<Rightarrow> string \<Rightarrow> exc + rat" where
  "stat_mtime fs p = (case fs p of None \<Rightarrow> Inl OSError | Some f \<Rightarrow> Inr (st_mtime f))"

definition find_cache_file ::
  "pyrt \<Rightarrow> ('s, 'w) pcse \<Rightarrow> filesystem \<Rightarrow> 's provider \<Rightarrow> string \<Rightarrow> exc + string option" where
  "find_cache_file rt E fs self csv_fname =
     (let cache_filename = get_cache_filename rt E self csv_fname
      in if fs cache_filename \<noteq> None then
           bindE (stat_mtime fs cache_filename) (\<lambda>cache_date.
           bindE (stat_mtime fs csv_fname) (\<lambda>csv_date.
           if cache_date > csv_date then Inr (Some cache_filename) else Inr None))
         else Inr None)"

definition load_cache_file ::
  "pyrt \<Rightarrow> ('s, 'w) pcse \<Rightarrow> filesystem \<Rightarrow> 's provider \<Rightarrow> string \<Rightarrow> exc + (bool \<times> 's provider)" where
  "load_cache_file rt E fs self csv_fname =
     bindE (find_cache_file rt E fs self csv_fname) (\<lambda>cache_filename.
     case cache_filename of
       None \<Rightarrow> Inr (False, self)
     | Some c \<Rightarrow> bindE (load E fs c self) (\<lambda>self'. Inr (True, self')))"

definition write_cache_file ::
  "pyrt \<Rightarrow> ('s, 'w) pcse \<Rightarrow> filesystem \<Rightarrow> 's provider \<Rightarrow> string \<Rightarrow> exc + (filesystem \<times> 's provider)" where
  "write_cache_file rt E fs self csv_fname =
     (let cache_filename = get_cache_filename rt E self csv_fname
      in case dump E fs cache_filename self of
           (fs', None) \<Rightarrow> Inr (fs', self)
         | (fs', Some OSError) \<Rightarrow>
             Inr (fs', self\<lparr>logged := logged self @ [FailedWriteCache cache_filename OSError]\<rparr>)
         | (fs', Some e) \<Rightarrow> Inl e)"

section \<open>Construction\<close>

definition open_text :: "filesystem \<Rightarrow> string \<Rightarrow> exc + textfile" where
  "open_text fs p = (case fs p of None \<Rightarrow> Inl OSError | Some f \<Rightarrow> Inr (OpenFile (readlines f)))"

text \<open>The \<open>with\<close> block of \<open>__init__\<close>: the file is parsed and the cache written.\<close>

definition parse_source ::
  "pyrt \<Rightarrow> ('s, 'w) pcse \<Rightarrow> filesystem \<Rightarrow> nat \<Rightarrow> 's provider \<Rightarrow> string \<Rightarrow> string \<Rightarrow> string
     \<Rightarrow> exc + (filesystem \<times> 's provider)" where
  "parse_source rt E fs n self csv_fname delimiter datefmt =
     bindE (open_text fs csv_fname) (\<lambda>csv_file.
     bindE (read_meta rt E n self csv_file fs) (\<lambda>(self1, csv_file1, fs1).
     bindE (read_observations rt E self1 csv_file1 delimiter datefmt) (\<lambda>self2.
     write_cache_file rt E fs1 self2 (fp_csv_fname self2))))"

text \<open>
  \<open>__init__\<close>, from the file system and the clock of the meta header to the file system
  and the object it leaves, or the exception it raises.
\<close>

definition init ::
  "pyrt \<Rightarrow> ('s, 'w) pcse \<Rightarrow> filesystem \<Rightarrow> nat \<Rightarrow> string \<Rightarrow> string \<Rightarrow> string \<Rightarrow> string
     \<Rightarrow> exc + (filesystem \<times> 's provider)" where
  "init rt E fs n csv_fname delimiter datefmt etmodel =
     (let self = (WeatherDataProvider_init E)
                   \<lparr>dateformat := datefmt, ETmodel := etmodel, fp_csv_fname := abspath rt csv_fname\<rparr>
      in if fs (fp_csv_fname self) = None then Inl PCSEError
         else bindE (load_cache_file rt E fs self (fp_csv_fname self)) (\<lambda>(loaded, self').
              if \<not> loaded then parse_source rt E fs n self' csv_fname delimiter datefmt
              else Inr (fs, self')))"

section \<open>A runtime and a PCSE to run the model on\<close>

text \<open>
  The theorems below hold for every runtime and every PCSE. To run the model on a file,
  this section gives one of each, small enough to evaluate: they agree with Python on the
  files of the examples, and stand for nothing else.
\<close>

definition digit_val :: "char \<Rightarrow> nat option" where
  "digit_val c = map_of (zip ''0123456789'' [0, 1, 2, 3, 4, 5, 6, 7, 8, 9]) c"

fun digits_val :: "string \<Rightarrow> nat option" where
  "digits_val [] = Some 0"
| "digits_val cs =
     (case (digits_val (butlast cs), digit_val (last cs)) of
        (Some n, Some k) \<Rightarrow> Some (10 * n + k)
      | _ \<Rightarrow> None)"

text \<open>\<open>float\<close> on a signed decimal numeral, \<open>nan\<close> or \<open>inf\<close>; no rounding.\<close>

definition decimal_float :: "string \<Rightarrow> pyfloat option" where
  "decimal_float s =
     (let neg = (take 1 s = ''-'');
          body = (if take 1 s = ''-'' \<or> take 1 s = ''+'' then drop 1 s else s);
          ip = takeWhile (\<lambda>c. c \<noteq> CHR ''.'') body;
          fp = drop (Suc (length ip)) body
      in if body = ''nan'' then Some NaN
         else if body = ''inf'' then Some (if neg then NegInf else PosInf)
         else if ip = [] \<and> fp = [] then None
         else case (digits_val ip, digits_val fp) of
                (Some n, Some k) \<Rightarrow>
                  Some (Finite ((if neg then - 1 else 1) * (of_nat n + of_nat k / 10 ^ length fp)))
              | _ \<Rightarrow> None)"

definition days_in_month :: "int \<Rightarrow> int \<Rightarrow> int" where
  "days_in_month y m =
     (if m = 2 then (if y mod 400 = 0 \<or> (y mod 4 = 0 \<and> y mod 100 \<noteq> 0) then 29 else 28)
      else if m = 4 \<or> m = 6 \<or> m = 9 \<or> m = 11 then 30 else 31)"

text \<open>\<open>strptime\<close> with the format \<open>%Y%m%d\<close> on eight digits.\<close>

definition strptime_Ymd :: "string \<Rightarrow> string \<Rightarrow> date option" where
  "strptime_Ymd s fmt =
     (if fmt = ''%Y%m%d'' \<and> length s = 8 then
        (case (digits_val (take 4 s), digits_val (take 2 (drop 4 s)), digits_val (drop 6 s)) of
           (Some y, Some m, Some d) \<Rightarrow>
             if 1 \<le> y \<and> 1 \<le> m \<and> m \<le> 12 \<and> 1 \<le> d \<and> int d \<le> days_in_month (int y) (int m)
             then Some (Date (int y) (int m) (int d)) else None
         | _ \<Rightarrow> None)
      else None)"

fun split_on :: "char \<Rightarrow> string \<Rightarrow> string list" where
  "split_on c [] = [[]]"
| "split_on c (x # xs) =
     (if x = c then [] # split_on c xs
      else case split_on c xs of [] \<Rightarrow> [[x]] | w # ws \<Rightarrow> (x # w) # ws)"

definition chomp :: "string \<Rightarrow> string" where
  "chomp l = (if l \<noteq> [] \<and> last l = CHR 0x0A then butlast l else l)"

text \<open>\<open>csv.reader\<close> on lines without quotes: an empty line is a row without cells.\<close>

definition plain_csv :: "string \<Rightarrow> string list \<Rightarrow> exc + string list list" where
  "plain_csv delimiter ls =
     (case delimiter of
        [c] \<Rightarrow> Inr (map (\<lambda>l. if chomp l = [] then [] else split_on c (chomp l)) ls)
      | _ \<Rightarrow> Inl TypeError)"

text \<open>The functions of \<open>posixpath\<close>.\<close>

definition posix_basename :: "string \<Rightarrow> string" where
  "posix_basename p = rev (takeWhile (\<lambda>c. c \<noteq> CHR ''/'') (rev p))"

definition posix_splitext :: "string \<Rightarrow> string \<times> string" where
  "posix_splitext p =
     (let base = posix_basename p;
          ext = rev (takeWhile (\<lambda>c. c \<noteq> CHR ''.'') (rev base));
          stem = take (length base - length ext - 1) base
      in if length ext = length base \<or> filter (\<lambda>c. c \<noteq> CHR ''.'') stem = [] then (p, [])
         else (take (length p - length ext - 1) p, CHR ''.'' # ext))"

definition posix_join :: "string \<Rightarrow> string \<Rightarrow> string" where
  "posix_join a b =
     (if take 1 b = ''/'' then b
      else if a = [] \<or> last a = CHR ''/'' then a @ b
      else a @ ''/'' @ b)"

text \<open>
  \<open>exec\<close> on the lines of a table: each is an assignment of a literal to a name, and
  binds the name. An empty line binds nothing. The line \<open>csv_file.readline()\<close> reads
  a line of the file and drops it.
\<close>

definition assign_line ::
  "(string \<times> string \<times> pyval) list \<Rightarrow> string \<Rightarrow> (string \<rightharpoonup> pyval) \<Rightarrow> exc + (string \<rightharpoonup> pyval)" where
  "assign_line tab line locs =
     (if chomp line = [] then Inr locs
      else case map_of tab (chomp line) of
             Some (k, v) \<Rightarrow> Inr (locs(k \<mapsto> v))
           | None \<Rightarrow> Inl (OtherError ''SyntaxError''))"

definition assign_exec :: "(string \<times> string \<times> pyval) list \<Rightarrow> string \<Rightarrow> 's frame \<Rightarrow> exc + 's frame" where
  "assign_exec tab line fr =
     (if chomp line = ''csv_file.readline()'' then
        bindE (readline (file_of fr)) (\<lambda>nxt. Inr (fr\<lparr>file_of := snd nxt\<rparr>))
      else binds (assign_line tab) line fr)"

definition demo_assignments :: "(string \<times> string \<times> pyval) list" where
  "demo_assignments =
     [(''Country = 'Netherlands' '', ''Country'', PStr ''Netherlands''),
      (''Station = 'Wageningen' '', ''Station'', PStr ''Wageningen''),
      (''Description = 'Observed' '', ''Description'', PStr ''Observed''),
      (''Source = 'KNMI' '', ''Source'', PStr ''KNMI''),
      (''Contact = 'nobody' '', ''Contact'', PStr ''nobody''),
      (''Longitude = 5.67'', ''Longitude'', PFloat (Finite (567 / 100))),
      (''Latitude = 52.0'', ''Latitude'', PFloat (Finite 52)),
      (''Elevation = 7'', ''Elevation'', PInt 7),
      (''AngstromA = 0.25'', ''AngstromA'', PFloat (Finite (1 / 4))),
      (''AngstromB = 0.5'', ''AngstromB'', PFloat (Finite (1 / 2))),
      (''HasSunshine = True'', ''HasSunshine'', PBool True),
      (''HasSunshine = False'', ''HasSunshine'', PBool False),
      (''Foo = 1'', ''Foo'', PInt 1)]"

definition demo_str :: "pyval \<Rightarrow> string" where
  "demo_str v = (case v of PStr s \<Rightarrow> s | _ \<Rightarrow> ''<value>'')"

definition demo_rt :: pyrt where
  "demo_rt =
     \<lparr>rnd = Finite, float_of_str = decimal_float, strptime_date = strptime_Ymd,
      str_of = demo_str, csv_reader = plain_csv,
      abspath = (\<lambda>p. p), basename = posix_basename, splitext = posix_splitext,
      path_join = posix_join\<rparr>"

text \<open>
  The store is a dict from the day to the container, and a container is its keyword
  arguments. \<open>reference_ET\<close> has a parameter \<open>ETMODEL\<close> with the default \<open>PM\<close>: the
  stand-in returns one triple for \<open>P\<close> and another one otherwise.
\<close>

type_synonym demo_store = "(pyval \<times> pydict) list"

definition demo_object :: "demo_store provider" where
  "demo_object =
     \<lparr>class_name = ''CSVWeatherDataProvider'', dateformat = [], ETmodel = ''PM'',
      fp_csv_fname = [], nodata_value = 0, description = [], longitude = NaN,
      latitude = NaN, elevation = NaN, angstA = NaN, angstB = NaN, has_sunshine = False,
      store = [], logged = [], printed = []\<rparr>"

definition demo_reference_ET :: "pydict \<Rightarrow> exc + (pyfloat \<times> pyfloat \<times> pyfloat)" where
  "demo_reference_ET kw =
     (if map_of kw ''ETMODEL'' = Some (PStr ''P'') then Inr (Finite 40, Finite 50, Finite 60)
      else Inr (Finite 20, Finite 10, Finite 30))"

definition demo_pcse :: "(demo_store, pydict) pcse" where
  "demo_pcse =
     \<lparr>exec_line = assign_exec demo_assignments,
      WeatherDataProvider_init = demo_object,
      METEO_CACHE_DIR = ''/cache'',
      check_angstromAB = (\<lambda>a b. Inr (a, b)),
      angstrom = (\<lambda>day lat hours a b. Inr (PFloat (Finite 7000000))),
      reference_ET = demo_reference_ET,
      WeatherDataContainer = Inr,
      store_WeatherDataContainer = (\<lambda>s wdc day. Inr (AList.update day wdc s)),
      load = (\<lambda>fs c self. Inr self),
      dump = (\<lambda>fs c self. (fs(c \<mapsto> \<lparr>st_mtime = 2000, readlines = []\<rparr>), None))\<rparr>"

text \<open>
  A weather file: the meta header with the given line for \<open>HasSunshine\<close>, the marker, the
  header row and the given rows.
\<close>

definition demo_file :: "string \<Rightarrow> string list \<Rightarrow> string list" where
  "demo_file sunshine rows =
     [''Country = 'Netherlands' \<newline>'', ''Station = 'Wageningen' \<newline>'',
      ''Description = 'Observed' \<newline>'', ''Source = 'KNMI' \<newline>'',
      ''Contact = 'nobody' \<newline>'', ''Longitude = 5.67\<newline>'', ''Latitude = 52.0\<newline>'',
      ''Elevation = 7\<newline>'', ''AngstromA = 0.25\<newline>'', ''AngstromB = 0.5\<newline>'',
      sunshine, ''## Daily weather data\<newline>'',
      ''DAY,IRRAD,TMIN,TMAX,VAP,WIND,RAIN\<newline>''] @ rows"

definition demo_fs :: "string list \<Rightarrow> filesystem" where
  "demo_fs ls = [''/data/w.csv'' \<mapsto> \<lparr>st_mtime = 1000, readlines = ls\<rparr>]"

text \<open>
  The file system of the example after a cache file was written at time 2000, with the
  source file last modified at time \<open>t\<close>.
\<close>

definition touched_fs :: "rat \<Rightarrow> filesystem" where
  "touched_fs t =
     [''/data/w.csv'' \<mapsto> \<lparr>st_mtime = t, readlines = demo_file ''HasSunshine = False\<newline>'' []\<rparr>,
      ''/cache/CSVWeatherDataProvider_w.cache'' \<mapsto> \<lparr>st_mtime = 2000, readlines = []\<rparr>]"

text \<open>The same with one data row in the source file.\<close>

definition dated_fs :: "rat \<Rightarrow> filesystem" where
  "dated_fs t =
     [''/data/w.csv'' \<mapsto>
        \<lparr>st_mtime = t,
         readlines = demo_file ''HasSunshine = False\<newline>'' [''20100101,8500,2.0,10.0,1.0,3.0,0.0\<newline>'']\<rparr>,
      ''/cache/CSVWeatherDataProvider_w.cache'' \<mapsto> \<lparr>st_mtime = 2000, readlines = []\<rparr>]"

section \<open>The conversions as the specification words them\<close>

text \<open>The canonical field names.\<close>

definition canonical :: "string list" where
  "canonical = map fst translator"

text \<open>
  The conversion of a field from its text: \<open>DAY\<close> is parsed as a date with the date
  format; every other field is parsed as a float, which is multiplied by 1000 for
  \<open>IRRAD\<close>, divided by 10 for \<open>RAIN\<close> and left as it is otherwise. A text that does
  not parse is a \<open>ValueError\<close>.
\<close>

definition fixed_conversion :: "pyrt \<Rightarrow> string \<Rightarrow> string \<Rightarrow> string \<Rightarrow> exc + pyval" where
  "fixed_conversion rt datefmt label s =
     (if label = ''DAY'' then
        (case strptime_date rt s datefmt of None \<Rightarrow> Inl ValueError | Some day \<Rightarrow> Inr (PDate day))
      else case float_of_str rt s of
             None \<Rightarrow> Inl ValueError
           | Some f \<Rightarrow>
               if label = ''IRRAD'' then Inr (PFloat (float_mul (rnd rt) f (Finite 1000)))
               else if label = ''RAIN'' then bindE (float_div (rnd rt) f (Finite 10)) (\<lambda>g. Inr (PFloat g))
               else Inr (PFloat f))"

text \<open>
  The fields a data row has, as text: the translated labels of the header zipped with the
  cells, without the entry of the empty label.
\<close>

definition raw_texts :: "string list \<Rightarrow> string list \<Rightarrow> (string \<times> string) list" where
  "raw_texts header row =
     (let d = dict_of_pairs (zip header row)
      in if map_of d [] \<noteq> None then AList.delete [] d else d)"

text \<open>
  Every field converted by its fixed conversion, in the order of the fields; the first
  conversion that fails gives the error.
\<close>

fun convert_texts :: "pyrt \<Rightarrow> string \<Rightarrow> (string \<times> string) list \<Rightarrow> exc + pydict" where
  "convert_texts rt datefmt [] = Inr []"
| "convert_texts rt datefmt ((label, s) # texts) =
     bindE (fixed_conversion rt datefmt label s) (\<lambda>y.
     bindE (convert_texts rt datefmt texts) (\<lambda>r. Inr ((label, y) # r)))"

section \<open>Executing lines one after the other\<close>


text \<open>
  The PCSE of the examples with a \<open>reference_ET\<close> that raises the given exception for a
  record whose \<open>TMIN\<close> is 2.
\<close>

definition raising_pcse :: "exc \<Rightarrow> (demo_store, pydict) pcse" where
  "raising_pcse e =
     demo_pcse\<lparr>reference_ET :=
       \<lambda>kw. if map_of kw ''TMIN'' = Some (PFloat (Finite 2)) then Inl e else demo_reference_ET kw\<rparr>"

section \<open>Basic facts\<close>

lemma bindE_simps [simp]:
  "bindE (Inl e) f = Inl e"
  "bindE (Inr x) f = f x"
  by (simp_all add: bindE_def)

section \<open>Evaluating the model\<close>

lemma bindE_weak_cong: "m = m' \<Longrightarrow> bindE m f = bindE m' f"
  by simp

lemma demo_rt_simps:
  "rnd demo_rt = Finite" "float_of_str demo_rt = decimal_float" "strptime_date demo_rt = strptime_Ymd"
  "str_of demo_rt = demo_str"
  "csv_reader demo_rt = plain_csv" "abspath demo_rt = (\<lambda>p. p)" "basename demo_rt = posix_basename"
  "splitext demo_rt = posix_splitext" "path_join demo_rt = posix_join"
  by (simp_all add: demo_rt_def)

lemma demo_pcse_simps:
  "exec_line demo_pcse = assign_exec demo_assignments"
  "WeatherDataProvider_init demo_pcse = demo_object"
  "METEO_CACHE_DIR demo_pcse = ''/cache''"
  "check_angstromAB demo_pcse = (\<lambda>a b. Inr (a, b))"
  "angstrom demo_pcse = (\<lambda>day lat hours a b. Inr (PFloat (Finite 7000000)))"
  "reference_ET demo_pcse = demo_reference_ET"
  "WeatherDataContainer demo_pcse = Inr"
  "store_WeatherDataContainer demo_pcse = (\<lambda>s wdc day. Inr (AList.update day wdc s))"
  "load demo_pcse = (\<lambda>fs c self. Inr self)"
  "dump demo_pcse = (\<lambda>fs c self. (fs(c \<mapsto> \<lparr>st_mtime = 2000, readlines = []\<rparr>), None))"
  by (simp_all add: demo_pcse_def)

lemma raising_pcse_simps:
  "exec_line (raising_pcse e) = assign_exec demo_assignments"
  "WeatherDataProvider_init (raising_pcse e) = demo_object"
  "METEO_CACHE_DIR (raising_pcse e) = ''/cache''"
  "check_angstromAB (raising_pcse e) = (\<lambda>a b. Inr (a, b))"
  "angstrom (raising_pcse e) = (\<lambda>day lat hours a b. Inr (PFloat (Finite 7000000)))"
  "reference_ET (raising_pcse e) =
     (\<lambda>kw. if map_of kw ''TMIN'' = Some (PFloat (Finite 2)) then Inl e else demo_reference_ET kw)"
  "WeatherDataContainer (raising_pcse e) = Inr"
  "store_WeatherDataContainer (raising_pcse e) = (\<lambda>s wdc day. Inr (AList.update day wdc s))"
  "load (raising_pcse e) = (\<lambda>fs c self. Inr self)"
  "dump (raising_pcse e) = (\<lambda>fs c self. (fs(c \<mapsto> \<lparr>st_mtime = 2000, readlines = []\<rparr>), None))"
  by (simp_all add: raising_pcse_def demo_pcse_def)

lemmas demo_eval =
  demo_rt_simps demo_pcse_simps demo_object_def demo_reference_ET_def decimal_float_def digit_val_def
  strptime_Ymd_def days_in_month_def plain_csv_def chomp_def posix_basename_def posix_splitext_def
  posix_join_def assign_exec_def assign_line_def binds_def demo_assignments_def demo_str_def
  demo_file_def demo_fs_def

lemmas model_eval =
  data_row_def raw_record_def dict_of_pairs_def dict_get_def obs_conversions_def NoConversion_def
  kJ_to_J_def mm_to_cm_def csvdate_to_date_def py_eq_def int_lt_val_def val_lt_int_def
  call_kwargs_def sunshine_to_irrad_def reference_ET_named_def container_named_def skip_row_def
  translate_label_def translator_def Let_def

lemma read_meta_lines_unfold:
  "read_meta_lines E n line fr =
     (if startswith line ''## Daily weather data'' then Inr fr
      else if n = 0 then Inl RuntimeError
      else bindE (exec_line E line fr) (\<lambda>fr1.
           bindE (readline (file_of fr1)) (\<lambda>nxt.
           read_meta_lines E (n - 1) (fst nxt) (fr1\<lparr>file_of := snd nxt\<rparr>))))"
  by (cases n) simp_all

lemmas init_eval =
  init_def load_cache_file_def find_cache_file_def stat_mtime_def get_cache_filename_def
  parse_source_def open_text_def read_meta_def read_observations_def write_cache_file_def
  locs_get_def startswith_def

section \<open>The name of the cache file\<close>

text \<open>
  C10. The name of the cache file is built from the class name of the provider and from
  the base name of the source file without its extension, inside the cache directory;
  nothing else of the provider and nothing else of the path enters. So two providers of
  the same class, for two source paths with the same such base name, have the same cache
  file, and when that file is newer than the source of the second provider, the second
  provider loads it, whichever source it was written for.
\<close>

theorem cache_filename_from_base_name:
  assumes "fst (splitext rt (basename rt p)) = fst (splitext rt (basename rt q))"
    and "class_name self1 = class_name self2"
  shows "get_cache_filename rt E self1 p = get_cache_filename rt E self2 q \<and>
         (fs q = Some f \<and> fs (get_cache_filename rt E self1 p) = Some c \<and> st_mtime f < st_mtime c
            \<longrightarrow> load_cache_file rt E fs self2 q =
                  bindE (load E fs (get_cache_filename rt E self1 p) self2) (\<lambda>self'. Inr (True, self')))"
proof -
  have same: "get_cache_filename rt E self1 p = get_cache_filename rt E self2 q"
    using assms by (simp add: get_cache_filename_def split_def)
  show ?thesis
    by (simp add: same load_cache_file_def find_cache_file_def stat_mtime_def Let_def)
qed

theorem cache_filename_from_base_name_witness:
  "get_cache_filename demo_rt demo_pcse (demo_object\<lparr>fp_csv_fname := ''/data/a/w.csv''\<rparr>) ''/data/a/w.csv''
     = ''/cache/CSVWeatherDataProvider_w.cache'' \<and>
   get_cache_filename demo_rt demo_pcse (demo_object\<lparr>fp_csv_fname := ''/data/b/w.csv''\<rparr>) ''/data/b/w.csv''
     = ''/cache/CSVWeatherDataProvider_w.cache'' \<and>
   load_cache_file demo_rt demo_pcse
     [''/data/b/w.csv'' \<mapsto> \<lparr>st_mtime = 1000, readlines = []\<rparr>,
      ''/cache/CSVWeatherDataProvider_w.cache'' \<mapsto> \<lparr>st_mtime = 2000, readlines = []\<rparr>]
     (demo_object\<lparr>fp_csv_fname := ''/data/b/w.csv''\<rparr>) ''/data/b/w.csv''
     = Inr (True, demo_object\<lparr>fp_csv_fname := ''/data/b/w.csv''\<rparr>)"
proof -
  let ?a = "demo_object\<lparr>fp_csv_fname := ''/data/a/w.csv''\<rparr>"
  let ?b = "demo_object\<lparr>fp_csv_fname := ''/data/b/w.csv''\<rparr>"
  have stem: "fst (splitext demo_rt (basename demo_rt ''/data/a/w.csv'')) =
              fst (splitext demo_rt (basename demo_rt ''/data/b/w.csv''))"
    by (simp add: demo_rt_def posix_basename_def posix_splitext_def)
  have cls: "class_name ?a = class_name ?b"
    by simp
  have name: "get_cache_filename demo_rt demo_pcse ?a ''/data/a/w.csv'' = ''/cache/CSVWeatherDataProvider_w.cache''"
    by (simp add: get_cache_filename_def demo_rt_def demo_pcse_def demo_object_def
        posix_basename_def posix_splitext_def posix_join_def)
  have name': "get_cache_filename demo_rt demo_pcse ?b ''/data/b/w.csv'' = ''/cache/CSVWeatherDataProvider_w.cache''"
    by (simp add: get_cache_filename_def demo_rt_def demo_pcse_def demo_object_def
        posix_basename_def posix_splitext_def posix_join_def)
  have ld: "load demo_pcse fs c self = Inr self" for fs c self
    by (simp add: demo_pcse_def)
  show ?thesis
    using cache_filename_from_base_name [OF stem cls, where E = demo_pcse
        and fs = "[''/data/b/w.csv'' \<mapsto> \<lparr>st_mtime = 1000, readlines = []\<rparr>,
          ''/cache/CSVWeatherDataProvider_w.cache'' \<mapsto> \<lparr>st_mtime = 2000, readlines = []\<rparr>]"
        and f = "\<lparr>st_mtime = 1000, readlines = []\<rparr>" and c = "\<lparr>st_mtime = 2000, readlines = []\<rparr>"]
    by (simp add: name name' ld)
qed

section \<open>The conversion loop\<close>

lemma float_eq_NaN [simp]: "float_eq f NaN = False"
  by (cases f) simp_all

lemma py_eq_NaN [simp]: "py_eq v (PFloat NaN) = False"
  by (cases v) (simp_all add: py_eq_def)

lemma float_div_10 [simp]: "float_div r f (Finite 10) \<noteq> Inl e"
  by (cases f) simp_all

lemma canonical_cases:
  "k \<in> set canonical \<longleftrightarrow>
     k = ''DAY'' \<or> k = ''IRRAD'' \<or> k = ''TMIN'' \<or> k = ''TMAX'' \<or> k = ''VAP'' \<or> k = ''WIND''
     \<or> k = ''RAIN'' \<or> k = ''SNOWDEPTH''"
  by (simp add: canonical_def translator_def)

lemma apply_conversion:
  assumes "label \<in> set canonical"
  shows "bindE (dict_get (obs_conversions rt) label)
           (\<lambda>func. if label = ''DAY'' then call2 func (PStr s) datefmt else call1 func (PStr s))
         = fixed_conversion rt datefmt label s"
  using assms unfolding canonical_cases
  by (elim disjE)
     (simp_all add: dict_get_def obs_conversions_def fixed_conversion_def NoConversion_def
        kJ_to_J_def mm_to_cm_def csvdate_to_date_def split: option.splits)

lemma fixed_conversion_Inl: "fixed_conversion rt datefmt k s = Inl e \<Longrightarrow> e = ValueError"
  by (auto simp add: fixed_conversion_def bindE_def simp del: float_div.simps
      split: option.splits if_splits sum.splits)

lemma convert_fields_fails:
  assumes "set labels \<subseteq> set canonical"
    and "\<forall>k\<in>set labels. \<exists>s. map_of d k = Some (PStr s)"
    and "distinct labels"
    and "k \<in> set labels" and "map_of d k = Some (PStr s)"
    and "fixed_conversion rt datefmt k s = Inl e"
  shows "convert_fields rt datefmt labels d = Inl ValueError"
  using assms
proof (induction labels arbitrary: d)
  case Nil
  then show ?case by simp
next
  case (Cons l ls)
  from Cons.prems obtain t where t: "map_of d l = Some (PStr t)" by auto
  have lc: "l \<in> set canonical" using Cons.prems by simp
  have step: "convert_fields rt datefmt (l # ls) d =
      bindE (fixed_conversion rt datefmt l t) (\<lambda>y. convert_fields rt datefmt ls (AList.update l y d))"
    using apply_conversion [OF lc, of rt t datefmt, symmetric] t
    by (simp add: dict_get_def bindE_def split: sum.splits)
  show ?case
  proof (cases "fixed_conversion rt datefmt l t")
    case (Inl e')
    then show ?thesis using step fixed_conversion_Inl [OF Inl] by simp
  next
    case (Inr y)
    have kl: "k \<noteq> l"
      using Cons.prems t Inr by auto
    have "convert_fields rt datefmt ls (AList.update l y d) = Inl ValueError"
    proof (rule Cons.IH)
      show "set ls \<subseteq> set canonical" using Cons.prems by simp
      show "\<forall>k\<in>set ls. \<exists>s. map_of (AList.update l y d) k = Some (PStr s)"
        using Cons.prems by (auto simp add: update_conv')
      show "distinct ls" using Cons.prems by simp
      show "k \<in> set ls" using Cons.prems kl by simp
      show "map_of (AList.update l y d) k = Some (PStr s)"
        using Cons.prems kl by (simp add: update_conv')
      show "fixed_conversion rt datefmt k s = Inl e" by fact
    qed
    then show ?thesis using step Inr by simp
  qed
qed

lemma convert_fields_succeeds:
  assumes "set labels \<subseteq> set canonical"
    and "\<forall>k\<in>set labels. \<exists>s. map_of d k = Some (PStr s)"
    and "distinct labels"
    and "convert_fields rt datefmt labels d = Inr d'"
  shows "map fst d' = map fst d \<and>
         (\<forall>k. k \<notin> set labels \<longrightarrow> map_of d' k = map_of d k) \<and>
         (\<forall>k\<in>set labels. \<exists>s v. map_of d k = Some (PStr s) \<and> fixed_conversion rt datefmt k s = Inr v
             \<and> map_of d' k = Some v)"
  using assms
proof (induction labels arbitrary: d)
  case Nil
  then show ?case by simp
next
  case (Cons l ls)
  from Cons.prems obtain t where t: "map_of d l = Some (PStr t)" by auto
  have lc: "l \<in> set canonical" using Cons.prems by simp
  have step: "convert_fields rt datefmt (l # ls) d =
      bindE (fixed_conversion rt datefmt l t) (\<lambda>y. convert_fields rt datefmt ls (AList.update l y d))"
    using apply_conversion [OF lc, of rt t datefmt, symmetric] t
    by (simp add: dict_get_def bindE_def split: sum.splits)
  from Cons.prems step obtain y where y: "fixed_conversion rt datefmt l t = Inr y"
    and rest: "convert_fields rt datefmt ls (AList.update l y d) = Inr d'"
    by (cases "fixed_conversion rt datefmt l t") auto
  have lin: "l \<in> fst ` set d" using map_of_SomeD [OF t] by force
  have IH: "map fst d' = map fst (AList.update l y d) \<and>
         (\<forall>k. k \<notin> set ls \<longrightarrow> map_of d' k = map_of (AList.update l y d) k) \<and>
         (\<forall>k\<in>set ls. \<exists>s v. map_of (AList.update l y d) k = Some (PStr s) \<and> fixed_conversion rt datefmt k s = Inr v
             \<and> map_of d' k = Some v)"
  proof (rule Cons.IH)
    show "set ls \<subseteq> set canonical" using Cons.prems by simp
    show "\<forall>k\<in>set ls. \<exists>s. map_of (AList.update l y d) k = Some (PStr s)"
      using Cons.prems by (auto simp add: update_conv')
    show "distinct ls" using Cons.prems by simp
    show "convert_fields rt datefmt ls (AList.update l y d) = Inr d'" by fact
  qed
  have keys: "map fst (AList.update l y d) = map fst d"
    using lin by (simp add: update_keys)
  have lnot: "l \<notin> set ls" using Cons.prems by simp
  show ?case
  proof (intro conjI allI impI ballI)
    show "map fst d' = map fst d" using IH keys by simp
  next
    fix k assume "k \<notin> set (l # ls)"
    then show "map_of d' k = map_of d k" using IH by (simp add: update_conv')
  next
    fix k assume k: "k \<in> set (l # ls)"
    show "\<exists>s v. map_of d k = Some (PStr s) \<and> fixed_conversion rt datefmt k s = Inr v \<and> map_of d' k = Some v"
    proof (cases "k = l")
      case True
      then show ?thesis using t y IH lnot by (simp add: update_conv')
    next
      case False
      then have "k \<in> set ls" using k by simp
      then show ?thesis using IH False by (auto simp add: update_conv')
    qed
  qed
qed

lemma convert_fields_never_NoDataError: "convert_fields rt datefmt labels d \<noteq> Inl NoDataError"
proof (induction labels arbitrary: d)
  case Nil
  then show ?case by simp
next
  case (Cons l ls)
  have pf: "py_float rt x \<noteq> Inl NoDataError" for x
    by (cases x) (simp_all split: option.splits pyfloat.splits)
  have c1: "call1 func x \<noteq> Inl NoDataError \<and> call2 func x datefmt \<noteq> Inl NoDataError"
    if "dict_get (obs_conversions rt) l = Inr func" for func x
    using that pf [of x]
    by (auto simp add: dict_get_def obs_conversions_def NoConversion_def kJ_to_J_def mm_to_cm_def
        csvdate_to_date_def bindE_def simp del: float_div.simps
        split: if_splits sum.splits pyval.splits option.splits)
  show ?case
    using Cons.IH c1
    by (auto simp add: bindE_def dict_get_def split: sum.splits option.splits)
qed

section \<open>When the cache is used\<close>

text \<open>
  C7. For a source file that exists, the cache is used if and only if the cache file with
  the derived name exists and its modification time is strictly greater than that of the
  source file: \<open>_find_cache_file\<close> returns the name exactly then, and construction then
  loads the cache; otherwise it opens the source file, reads the meta header and the
  observations from it and writes the cache. So once the modification time of the source
  is no longer below that of the cache file, the next construction parses the source again.
\<close>

theorem cache_valid_iff_strictly_newer:
  assumes "fs (abspath rt csv_fname) = Some f"
  shows "let self = (WeatherDataProvider_init E)
                      \<lparr>dateformat := datefmt, ETmodel := etmodel, fp_csv_fname := abspath rt csv_fname\<rparr>;
             cache = get_cache_filename rt E self (abspath rt csv_fname);
             valid = (case fs cache of None \<Rightarrow> False | Some c \<Rightarrow> st_mtime f < st_mtime c)
         in find_cache_file rt E fs self (abspath rt csv_fname) = Inr (if valid then Some cache else None) \<and>
            init rt E fs n csv_fname delimiter datefmt etmodel =
              (if valid then bindE (load E fs cache self) (\<lambda>self'. Inr (fs, self'))
               else bindE (open_text fs csv_fname) (\<lambda>csv_file.
                    bindE (read_meta rt E n self csv_file fs) (\<lambda>(self1, csv_file1, fs1).
                    bindE (read_observations rt E self1 csv_file1 delimiter datefmt) (\<lambda>self2.
                    write_cache_file rt E fs1 self2 (fp_csv_fname self2)))))"
  using assms
  by (auto simp add: Let_def init_def load_cache_file_def find_cache_file_def stat_mtime_def
      parse_source_def split: option.splits sum.splits simp: bindE_def)

theorem cache_valid_iff_strictly_newer_witness:
  "map_sum id (\<lambda>(fs, s). (description s, map fst (store s)))
     (init demo_rt demo_pcse (dated_fs 1000) 100 ''/data/w.csv'' '','' ''%Y%m%d'' ''PM'') = Inr ([], []) \<and>
   map_sum id (\<lambda>(fs, s). (description s, map fst (store s)))
     (init demo_rt demo_pcse (dated_fs 2000) 100 ''/data/w.csv'' '','' ''%Y%m%d'' ''PM'') =
     Inr ([''Weather data for:'', ''Country: Netherlands'', ''Station: Wageningen'',
           ''Description: Observed'', ''Source: KNMI'', ''Contact: nobody''],
          [PDate (Date 2010 1 1)])"
proof -
  let ?self = "demo_object\<lparr>dateformat := ''%Y%m%d'', ETmodel := ''PM'', fp_csv_fname := ''/data/w.csv''\<rparr>"
  let ?lines = "demo_file ''HasSunshine = False\<newline>'' [''20100101,8500,2.0,10.0,1.0,3.0,0.0\<newline>'']"
  have name: "get_cache_filename demo_rt demo_pcse ?self ''/data/w.csv'' = ''/cache/CSVWeatherDataProvider_w.cache''"
    by (simp add: get_cache_filename_def demo_rt_def demo_pcse_def demo_object_def
        posix_basename_def posix_splitext_def posix_join_def)
  have ab: "abspath demo_rt p = p" for p
    by (simp add: demo_rt_def)
  have ob: "WeatherDataProvider_init demo_pcse = demo_object"
    by (simp add: demo_pcse_def)
  have ld: "load demo_pcse fs c self = Inr self" for fs c self
    by (simp add: demo_pcse_def)
  have src: "dated_fs t (abspath demo_rt ''/data/w.csv'') = Some \<lparr>st_mtime = t, readlines = ?lines\<rparr>" for t
    by (simp add: dated_fs_def ab)
  have src': "dated_fs t ''/data/w.csv'' = Some \<lparr>st_mtime = t, readlines = ?lines\<rparr>" for t
    by (simp add: dated_fs_def)
  have cache: "dated_fs t ''/cache/CSVWeatherDataProvider_w.cache'' = Some \<lparr>st_mtime = 2000, readlines = []\<rparr>" for t
    by (simp add: dated_fs_def)
  have loaded: "init demo_rt demo_pcse (dated_fs 1000) 100 ''/data/w.csv'' '','' ''%Y%m%d'' ''PM'' =
                  Inr (dated_fs 1000, ?self)"
    using cache_valid_iff_strictly_newer [where fs = "dated_fs 1000" and rt = demo_rt
          and csv_fname = "''/data/w.csv''" and E = demo_pcse and datefmt = "''%Y%m%d''"
          and etmodel = "''PM''" and n = 100 and delimiter = "'',''", OF src]
    by (simp add: Let_def ab ob name cache ld)
  have parsed: "init demo_rt demo_pcse (dated_fs 2000) 100 ''/data/w.csv'' '','' ''%Y%m%d'' ''PM'' =
      bindE (open_text (dated_fs 2000) ''/data/w.csv'') (\<lambda>csv_file.
      bindE (read_meta demo_rt demo_pcse 100 ?self csv_file (dated_fs 2000)) (\<lambda>(self1, csv_file1, fs1).
      bindE (read_observations demo_rt demo_pcse self1 csv_file1 '','' ''%Y%m%d'') (\<lambda>self2.
      write_cache_file demo_rt demo_pcse fs1 self2 (fp_csv_fname self2))))"
    using cache_valid_iff_strictly_newer [where fs = "dated_fs 2000" and rt = demo_rt
          and csv_fname = "''/data/w.csv''" and E = demo_pcse and datefmt = "''%Y%m%d''"
          and etmodel = "''PM''" and n = 100 and delimiter = "'',''", OF src]
    by (simp add: Let_def ab ob name cache)
  have reparse: "map_sum id (\<lambda>(fs, s). (description s, map fst (store s)))
      (bindE (open_text (dated_fs 2000) ''/data/w.csv'') (\<lambda>csv_file.
       bindE (read_meta demo_rt demo_pcse 100 ?self csv_file (dated_fs 2000)) (\<lambda>(self1, csv_file1, fs1).
       bindE (read_observations demo_rt demo_pcse self1 csv_file1 '','' ''%Y%m%d'') (\<lambda>self2.
       write_cache_file demo_rt demo_pcse fs1 self2 (fp_csv_fname self2))))) =
     Inr ([''Weather data for:'', ''Country: Netherlands'', ''Station: Wageningen'',
           ''Description: Observed'', ''Source: KNMI'', ''Contact: nobody''],
          [PDate (Date 2010 1 1)])"
    by (simp add: open_text_def src' read_meta_def read_observations_def write_cache_file_def
        get_cache_filename_def locs_get_def startswith_def demo_eval model_eval read_meta_lines_unfold
        cong: bindE_weak_cong)
  show ?thesis
    unfolding loaded parsed reparse by (simp add: demo_object_def)
qed

section \<open>The dict of a row\<close>

lemma foldl_update_props:
  fixes ps :: "(string \<times> pyval) list"
  assumes "distinct (map fst acc)" and "\<forall>v\<in>snd ` set acc. \<exists>s. v = PStr s"
    and "\<forall>v\<in>snd ` set ps. \<exists>s. v = PStr s"
  shows "distinct (map fst (foldl (\<lambda>d (k, v). AList.update k v d) acc ps)) \<and>
         fst ` set (foldl (\<lambda>d (k, v). AList.update k v d) acc ps) = fst ` set acc \<union> fst ` set ps \<and>
         (\<forall>k v. map_of (foldl (\<lambda>d (k, v). AList.update k v d) acc ps) k = Some v \<longrightarrow> (\<exists>s. v = PStr s))"
  using assms
proof (induction ps arbitrary: acc)
  case Nil
  then show ?case by (auto dest!: map_of_SomeD intro: rev_image_eqI)
next
  case (Cons p ps)
  obtain k v where p: "p = (k, v)" by (cases p)
  have d: "distinct (map fst (AList.update k v acc))"
    using Cons.prems by (simp add: distinct_update)
  have vs: "\<forall>w\<in>snd ` set (AList.update k v acc). \<exists>s. w = PStr s"
  proof
    fix w assume "w \<in> snd ` set (AList.update k v acc)"
    then obtain k' where "(k', w) \<in> set (AList.update k v acc)" by auto
    then have "map_of (AList.update k v acc) k' = Some w" using d by simp
    then have "w = v \<or> map_of acc k' = Some w" by (auto simp add: update_conv' split: if_splits)
    then show "\<exists>s. w = PStr s"
      using Cons.prems p by (auto dest!: map_of_SomeD intro: rev_image_eqI)
  qed
  have ks: "fst ` set (AList.update k v acc) = insert k (fst ` set acc)"
    using dom_update [of k v acc] by (simp add: dom_map_of_conv_image_fst)
  show ?case
    using Cons.IH [OF d vs] Cons.prems ks p by auto
qed

lemma raw_record_props:
  "distinct (map fst (raw_record header row)) \<and>
   fst ` set (raw_record header row) \<subseteq> set header - {[]} \<and>
   (\<forall>k v. map_of (raw_record header row) k = Some v \<longrightarrow> (\<exists>s. v = PStr s))"
proof -
  let ?d = "dict_of_pairs (zip header (map PStr row))"
  have zs: "\<forall>v\<in>snd ` set (zip header (map PStr row)). \<exists>s. v = PStr s"
    by (auto dest!: set_zip_rightD)
  have "distinct (map fst ?d) \<and> fst ` set ?d = fst ` set (zip header (map PStr row)) \<and>
        (\<forall>k v. map_of ?d k = Some v \<longrightarrow> (\<exists>s. v = PStr s))"
    using foldl_update_props [of "[]" "zip header (map PStr row)"] zs
    by (simp add: dict_of_pairs_def)
  then have d: "distinct (map fst ?d)"
    and k: "fst ` set ?d = fst ` set (zip header (map PStr row))"
    and v: "\<forall>k v. map_of ?d k = Some v \<longrightarrow> (\<exists>s. v = PStr s)"
    by (simp_all add: dict_of_pairs_def)
  have k': "fst ` set ?d \<subseteq> set header"
    unfolding k by (auto dest!: set_zip_leftD)
  show ?thesis
  proof (cases "map_of ?d [] \<noteq> None")
    case True
    then have r: "raw_record header row = AList.delete [] ?d"
      by (simp add: raw_record_def Let_def)
    have "distinct (map fst (AList.delete [] ?d))"
      using d by (simp add: distinct_delete)
    moreover have "fst ` set (AList.delete [] ?d) \<subseteq> set header - {[]}"
      using k' by (auto simp add: AList.delete_eq)
    moreover have "\<forall>k v. map_of (AList.delete [] ?d) k = Some v \<longrightarrow> (\<exists>s. v = PStr s)"
      using v by (auto simp add: delete_conv' split: if_splits)
    ultimately show ?thesis unfolding r by blast
  next
    case False
    then have r: "raw_record header row = ?d"
      by (simp add: raw_record_def Let_def)
    have "[] \<notin> fst ` set ?d" using False by (simp add: map_of_eq_None_iff)
    then have "fst ` set ?d \<subseteq> set header - {[]}" using k' by blast
    then show ?thesis unfolding r using d v by blast
  qed
qed

lemma translate_label_range: "translate_label item \<in> set canonical \<or> translate_label item = []"
proof (cases "item \<in> set (concat (map snd translator))")
  case True
  then have "item = ''w_date'' \<or> item = ''DAY'' \<or> item = ''srad'' \<or> item = ''RADIATION'' \<or> item = ''IRRAD''
      \<or> item = ''tmin'' \<or> item = ''TEMPERATURE_MIN'' \<or> item = ''TMIN''
      \<or> item = ''tmax'' \<or> item = ''TEMPERATURE_MAX'' \<or> item = ''TMAX''
      \<or> item = ''vprs_tx'' \<or> item = ''VAPOURPRESSURE'' \<or> item = ''VAP''
      \<or> item = ''wind'' \<or> item = ''WINDSPEED'' \<or> item = ''WIND''
      \<or> item = ''rain'' \<or> item = ''PRECIPITATION'' \<or> item = ''RAIN''
      \<or> item = ''snowdepth'' \<or> item = ''SNOWDEPTH''"
    unfolding translator_def by simp
  then show ?thesis
    by (elim disjE) (simp_all add: translate_label_def translator_def canonical_def)
next
  case False
  then have "translate_label item = []"
    unfolding translate_label_def translator_def by simp
  then show ?thesis by simp
qed

section \<open>A row that fails\<close>

lemma map_sum_bindE: "map_sum id g (bindE m f) = bindE m (\<lambda>x. map_sum id g (f x))"
  by (cases m) simp_all

lemma raw_record_canonical:
  "set (map fst (raw_record (map translate_label labels) row)) \<subseteq> set canonical"
proof -
  have "fst ` set (raw_record (map translate_label labels) row) \<subseteq> set (map translate_label labels) - {[]}"
    using raw_record_props [of "map translate_label labels" row] by blast
  also have "\<dots> \<subseteq> set canonical"
    using translate_label_range by auto
  finally show ?thesis by simp
qed

lemma raw_record_convert_fails:
  assumes "map_of (raw_record (map translate_label labels) row) k = Some (PStr s)"
    and "fixed_conversion rt datefmt k s = Inl e"
  shows "data_row rt E datefmt self (map translate_label labels) row = Inl ValueError"
proof -
  let ?d = "raw_record (map translate_label labels) row"
  have k: "k \<in> set (map fst ?d)"
    using map_of_SomeD [OF assms(1)] by force
  have "convert_fields rt datefmt (map fst ?d) ?d = Inl ValueError"
  proof (rule convert_fields_fails [OF raw_record_canonical _ _ k assms])
    show "\<forall>k\<in>set (map fst ?d). \<exists>s. map_of ?d k = Some (PStr s)"
    proof
      fix k' assume "k' \<in> set (map fst ?d)"
      then obtain v where "map_of ?d k' = Some v"
        by (metis map_of_eq_None_iff not_Some_eq set_map)
      then show "\<exists>s. map_of ?d k' = Some (PStr s)"
        using raw_record_props [of "map translate_label labels" row] by blast
    qed
    show "distinct (map fst ?d)"
      using raw_record_props [of "map translate_label labels" row] by blast
  qed
  then show ?thesis by (simp add: data_row_def Let_def)
qed

lemma store_update_log:
  "(s\<lparr>logged := x, printed := y\<rparr>)\<lparr>store := t\<rparr> = (s\<lparr>store := t\<rparr>)\<lparr>logged := x, printed := y\<rparr>"
  by simp

lemma data_row_log:
  "data_row rt E datefmt (self\<lparr>logged := x, printed := y\<rparr>) header row =
     map_sum id (\<lambda>s. s\<lparr>logged := x, printed := y\<rparr>) (data_row rt E datefmt self header row)"
  by (simp add: data_row_def sunshine_to_irrad_def reference_ET_named_def container_named_def
      Let_def map_sum_bindE split_def store_update_log del: float_div.simps cong: if_cong)

lemma read_rows_store_log:
  "map_sum id store (read_rows rt E datefmt rows hr header (self\<lparr>logged := x, printed := y\<rparr>)) =
   map_sum id store (read_rows rt E datefmt rows hr header self)"
proof (induction rows arbitrary: self x y hr header)
  case Nil
  then show ?case by simp
next
  case (Cons row rows)
  show ?case
  proof (cases hr)
    case True
    then show ?thesis using Cons.IH by simp
  next
    case False
    have sk: "skip_row row (self\<lparr>logged := x, printed := y\<rparr>) =
              self\<lparr>logged := x @ [FailedReadingRow row], printed := y @ [FailedReadingRow row]\<rparr>"
      by (simp add: skip_row_def)
    have sk': "skip_row row self =
              self\<lparr>logged := logged self @ [FailedReadingRow row], printed := printed self @ [FailedReadingRow row]\<rparr>"
      by (simp add: skip_row_def)
    show ?thesis
    proof (cases "data_row rt E datefmt self header row")
      case (Inr self')
      then show ?thesis using False Cons.IH by (simp add: data_row_log)
    next
      case (Inl e)
      then show ?thesis
        using False Cons.IH [where hr = False and header = header and self = self
            and x = "x @ [FailedReadingRow row]" and y = "y @ [FailedReadingRow row]"]
          Cons.IH [where hr = False and header = header and self = self
            and x = "logged self @ [FailedReadingRow row]" and y = "printed self @ [FailedReadingRow row]"]
        by (cases e) (simp_all add: data_row_log sk sk')
    qed
  qed
qed

section \<open>A row whose day does not parse\<close>

text \<open>
  C9. A data row whose \<open>DAY\<close> cell does not parse under the date format is skipped:
  the loop goes on with the rows after it, from the same store and with one warning more,
  and the store the loop leaves (or the exception it raises) is the one it leaves for the
  file without that row. The header is any header row as the loop translates it.
\<close>

theorem unparsable_day_skips_row:
  assumes "map_of (raw_record (map translate_label labels) row) ''DAY'' = Some (PStr s)"
    and "strptime_date rt s datefmt = None"
  shows "read_rows rt E datefmt (row # rows) False (map translate_label labels) self =
           read_rows rt E datefmt rows False (map translate_label labels) (skip_row row self) \<and>
         store (skip_row row self) = store self \<and>
         map_sum id store (read_rows rt E datefmt (row # rows) False (map translate_label labels) self) =
           map_sum id store (read_rows rt E datefmt rows False (map translate_label labels) self)"
proof -
  have "fixed_conversion rt datefmt ''DAY'' s = Inl ValueError"
    using assms(2) by (simp add: fixed_conversion_def)
  from raw_record_convert_fails [OF assms(1) this, of E self]
  have step: "read_rows rt E datefmt (row # rows) False (map translate_label labels) self =
           read_rows rt E datefmt rows False (map translate_label labels) (skip_row row self)"
    by simp
  have "skip_row row self = self\<lparr>logged := logged self @ [FailedReadingRow row],
          printed := printed self @ [FailedReadingRow row]\<rparr>"
    by (simp add: skip_row_def)
  then show ?thesis
    using step read_rows_store_log [where self = self and rt = rt and E = E and datefmt = datefmt
        and rows = rows and hr = False and header = "map translate_label labels"
        and x = "logged self @ [FailedReadingRow row]" and y = "printed self @ [FailedReadingRow row]"]
    by (simp add: skip_row_def)
qed

theorem unparsable_day_skips_row_witness:
  "map_sum id (\<lambda>s. (map fst (store s), logged s))
     (read_rows demo_rt demo_pcse ''%Y%m%d''
        [[''DAY'', ''IRRAD'', ''TMIN'', ''TMAX'', ''VAP'', ''WIND'', ''RAIN''],
         [''notadate'', ''8500'', ''2.0'', ''10.0'', ''1.0'', ''3.0'', ''0.0''],
         [''20100102'', ''9000'', ''3.0'', ''11.0'', ''1.0'', ''3.0'', ''0.0'']]
        True [] demo_object) =
   Inr ([PDate (Date 2010 1 2)],
        [FailedReadingRow [''notadate'', ''8500'', ''2.0'', ''10.0'', ''1.0'', ''3.0'', ''0.0'']])"
proof -
  let ?labels = "[''DAY'', ''IRRAD'', ''TMIN'', ''TMAX'', ''VAP'', ''WIND'', ''RAIN'']"
  let ?bad = "[''notadate'', ''8500'', ''2.0'', ''10.0'', ''1.0'', ''3.0'', ''0.0'']"
  let ?good = "[''20100102'', ''9000'', ''3.0'', ''11.0'', ''1.0'', ''3.0'', ''0.0'']"
  have day: "map_of (raw_record (map translate_label ?labels) ?bad) ''DAY'' = Some (PStr ''notadate'')"
    by (simp add: model_eval)
  have unparsable: "strptime_date demo_rt ''notadate'' ''%Y%m%d'' = None"
    by (simp add: demo_eval)
  have rest: "map_sum id (\<lambda>s. (map fst (store s), logged s))
     (read_rows demo_rt demo_pcse ''%Y%m%d'' [?good] False (map translate_label ?labels)
        (skip_row ?bad demo_object)) =
     Inr ([PDate (Date 2010 1 2)], [FailedReadingRow ?bad])"
    by (simp add: demo_eval model_eval cong: bindE_weak_cong)
  show ?thesis
    using unparsable_day_skips_row [OF day unparsable, of demo_pcse "[?good]" demo_object] rest
    by simp
qed

section \<open>The conversion of each field\<close>

lemma update_map_values:
  "AList.update k (f v) (map (\<lambda>(k, v). (k, f v)) d) = map (\<lambda>(k, v). (k, f v)) (AList.update k v d)"
  by (induction d) auto

lemma foldl_update_map_values:
  "foldl (\<lambda>d (k, v). AList.update k v d) (map (\<lambda>(k, v). (k, f v)) acc) (map (\<lambda>(k, v). (k, f v)) ps) =
   map (\<lambda>(k, v). (k, f v)) (foldl (\<lambda>d (k, v). AList.update k v d) acc ps)"
proof (induction ps arbitrary: acc)
  case Nil
  then show ?case by simp
next
  case (Cons p ps)
  obtain k v where p: "p = (k, v)" by (cases p)
  show ?case
    using Cons.IH [of "AList.update k v acc"] by (simp add: p update_map_values)
qed

lemma raw_record_texts:
  "raw_record header row = map (\<lambda>(k, s). (k, PStr s)) (raw_texts header row)"
proof -
  have z: "zip header (map PStr row) = map (\<lambda>(k, s). (k, PStr s)) (zip header row)"
    by (simp add: zip_map2)
  have d: "dict_of_pairs (zip header (map PStr row)) =
           map (\<lambda>(k, s). (k, PStr s)) (dict_of_pairs (zip header row))"
    unfolding dict_of_pairs_def z
    using foldl_update_map_values [of PStr "[]" "zip header row"] by simp
  have m: "map_of (map (\<lambda>(k, s). (k, PStr s)) xs) [] = map_option PStr (map_of xs [])"
    for xs :: "(string \<times> string) list"
    by (simp add: map_of_map)
  have del: "AList.delete [] (map (\<lambda>(k, s). (k, PStr s)) xs) = map (\<lambda>(k, s). (k, PStr s)) (AList.delete [] xs)"
    for xs :: "(string \<times> string) list"
    by (induction xs) (auto simp add: AList.delete_eq)
  show ?thesis
    by (simp add: raw_record_def raw_texts_def d m del Let_def)
qed

lemma update_middle:
  "k \<notin> fst ` set xs \<Longrightarrow> AList.update k v (xs @ (k, w) # ys) = xs @ (k, v) # ys"
  by (induction xs) auto

lemma convert_fields_todo:
  assumes "distinct (map fst done @ map fst todo)" and "fst ` set todo \<subseteq> set canonical"
  shows "convert_fields rt datefmt (map fst todo) (done @ map (\<lambda>(k, s). (k, PStr s)) todo) =
           bindE (convert_texts rt datefmt todo) (\<lambda>r. Inr (done @ r))"
  using assms
proof (induction todo arbitrary: "done")
  case Nil
  then show ?case by simp
next
  case (Cons p todo)
  obtain k s where p: "p = (k, s)" by (cases p)
  let ?rest = "map (\<lambda>(k, s). (k, PStr s)) todo"
  have kc: "k \<in> set canonical" using Cons.prems p by simp
  have kd: "k \<notin> fst ` set done" using Cons.prems p by auto
  have get: "dict_get (done @ (k, PStr s) # ?rest) k = Inr (PStr s)"
  proof -
    have "map_of done k = None" using kd by (simp add: map_of_eq_None_iff)
    then show ?thesis by (simp add: dict_get_def map_add_def)
  qed
  have step: "convert_fields rt datefmt (k # map fst todo) (done @ (k, PStr s) # ?rest) =
      bindE (fixed_conversion rt datefmt k s) (\<lambda>y.
        convert_fields rt datefmt (map fst todo) ((done @ [(k, y)]) @ ?rest))"
    using apply_conversion [OF kc, of rt s datefmt, symmetric] get update_middle [OF kd]
    by (simp add: bindE_def split: sum.splits)
  show ?case
  proof (cases "fixed_conversion rt datefmt k s")
    case (Inl e)
    then show ?thesis using step p by simp
  next
    case (Inr y)
    have "convert_fields rt datefmt (map fst todo) ((done @ [(k, y)]) @ ?rest) =
            bindE (convert_texts rt datefmt todo) (\<lambda>r. Inr ((done @ [(k, y)]) @ r))"
      using Cons.prems p by (intro Cons.IH) auto
    then show ?thesis
      using step p Inr by (cases "convert_texts rt datefmt todo") simp_all
  qed
qed

text \<open>
  C8. The conversion loop of a data row does to the fields the row has exactly what the
  fixed conversions say: it returns the fields in their order, \<open>DAY\<close> as the date parsed
  with the date format, \<open>IRRAD\<close> as the float times 1000, \<open>RAIN\<close> as the float divided
  by 10 and every other field as the float, when all of them parse, and raises the
  \<open>ValueError\<close> of the first that does not. The header is any header row as the loop
  translates it.
\<close>

theorem fields_converted_as_fixed:
  "convert_fields rt datefmt (map fst (raw_record (map translate_label labels) row))
     (raw_record (map translate_label labels) row) =
   convert_texts rt datefmt (raw_texts (map translate_label labels) row)"
proof -
  let ?h = "map translate_label labels"
  have r: "raw_record ?h row = [] @ map (\<lambda>(k, s). (k, PStr s)) (raw_texts ?h row)"
    by (simp add: raw_record_texts)
  have keys: "map fst (raw_record ?h row) = map fst (raw_texts ?h row)"
    by (simp add: raw_record_texts split_def comp_def)
  have dist: "distinct (map fst [] @ map fst (raw_texts ?h row))"
    using raw_record_props [of ?h row] keys by simp
  have canon: "fst ` set (raw_texts ?h row) \<subseteq> set canonical"
    using raw_record_canonical [of labels row] keys by (metis set_map)
  have "convert_fields rt datefmt (map fst (raw_texts ?h row))
          ([] @ map (\<lambda>(k, s). (k, PStr s)) (raw_texts ?h row)) =
        bindE (convert_texts rt datefmt (raw_texts ?h row)) (\<lambda>r. Inr ([] @ r))"
    by (rule convert_fields_todo [OF dist canon])
  then show ?thesis
    unfolding keys
    by (cases "convert_texts rt datefmt (raw_texts ?h row)") (simp_all add: raw_record_texts)
qed

theorem fields_converted_as_fixed_witness:
  "convert_fields demo_rt ''%Y%m%d''
     (map fst (raw_record (map translate_label [''DAY'', ''RADIATION'', ''tmin'', ''PRECIPITATION'', ''remark''])
        [''20100101'', ''8.5'', ''2.0'', ''5'', ''fine'']))
     (raw_record (map translate_label [''DAY'', ''RADIATION'', ''tmin'', ''PRECIPITATION'', ''remark''])
        [''20100101'', ''8.5'', ''2.0'', ''5'', ''fine'']) =
   Inr [(''DAY'', PDate (Date 2010 1 1)), (''IRRAD'', PFloat (Finite 8500)),
        (''TMIN'', PFloat (Finite 2)), (''RAIN'', PFloat (Finite (1 / 2)))]"
proof -
  have "convert_texts demo_rt ''%Y%m%d''
          (raw_texts (map translate_label [''DAY'', ''RADIATION'', ''tmin'', ''PRECIPITATION'', ''remark''])
             [''20100101'', ''8.5'', ''2.0'', ''5'', ''fine'']) =
        Inr [(''DAY'', PDate (Date 2010 1 1)), (''IRRAD'', PFloat (Finite 8500)),
             (''TMIN'', PFloat (Finite 2)), (''RAIN'', PFloat (Finite (1 / 2)))]"
    by (simp add: raw_texts_def dict_of_pairs_def translate_label_def translator_def
        fixed_conversion_def demo_eval cong: bindE_weak_cong)
  then show ?thesis
    unfolding fields_converted_as_fixed .
qed

section \<open>Rows with a value that is not a number\<close>

text \<open>
  C1. A data row with a field other than \<open>SNOWDEPTH\<close> that parses to NaN is to raise
  \<open>NoDataError\<close> and be skipped with a warning. The test the loop makes,
  \<open>d[label] == float('NaN')\<close>, is false for every value, so the loop never raises
  \<open>NoDataError\<close> (\<open>convert_fields_never_NoDataError\<close>). On the file below the row has
  \<open>nan\<close> for \<open>TMIN\<close>: construction returns, the row is in the store with \<open>TMIN\<close>
  NaN, and nothing was logged.
\<close>

theorem nan_row_is_stored:
  "map_sum id (\<lambda>(fs, s). (map (\<lambda>(day, w). (day, map_of w ''TMIN'')) (store s), logged s))
     (init demo_rt demo_pcse
        (demo_fs (demo_file ''HasSunshine = False\<newline>'' [''20100101,8500,nan,10.0,1.0,3.0,0.0\<newline>'']))
        100 ''/data/w.csv'' '','' ''%Y%m%d'' ''PM'') =
   Inr ([(PDate (Date 2010 1 1), Some (PFloat NaN))], [])"
  by (simp add: init_eval demo_eval model_eval read_meta_lines_unfold cong: bindE_weak_cong)

section \<open>Radiation from sunshine hours\<close>

text \<open>
  C5. With \<open>HasSunshine\<close> true, an \<open>IRRAD\<close> of 8.5 is hours of sunshine and is to be
  replaced by the result of \<open>angstrom\<close>. The test \<open>0 < d['IRRAD'] < 24\<close> is made on
  the value after its multiplication by 1000, here 8500, so \<open>angstrom\<close> is not called:
  on the file below the stored \<open>IRRAD\<close> is 8500, not the 7000000 the stand-in for
  \<open>angstrom\<close> returns.
\<close>

theorem sunshine_hours_not_corrected:
  "map_sum id (\<lambda>(fs, s). (has_sunshine s, map (\<lambda>(day, w). (day, map_of w ''IRRAD'')) (store s), logged s))
     (init demo_rt demo_pcse
        (demo_fs (demo_file ''HasSunshine = True\<newline>'' [''20100101,8.5,2.0,10.0,1.0,3.0,0.0\<newline>'']))
        100 ''/data/w.csv'' '','' ''%Y%m%d'' ''PM'') =
   Inr (True, [(PDate (Date 2010 1 1), Some (PFloat (Finite 8500)))], [])"
  by (simp add: init_eval demo_eval model_eval read_meta_lines_unfold cong: bindE_weak_cong)

section \<open>The model of evapotranspiration\<close>

lemma store_update_ETmodel:
  "(s\<lparr>ETmodel := m\<rparr>)\<lparr>store := t\<rparr> = (s\<lparr>store := t\<rparr>)\<lparr>ETmodel := m\<rparr>"
  by simp

lemma data_row_ETmodel:
  "data_row rt E datefmt (self\<lparr>ETmodel := m\<rparr>) header row =
     map_sum id (\<lambda>s. s\<lparr>ETmodel := m\<rparr>) (data_row rt E datefmt self header row)"
  by (simp add: data_row_def sunshine_to_irrad_def reference_ET_named_def container_named_def
      Let_def map_sum_bindE split_def store_update_ETmodel del: float_div.simps cong: if_cong)

lemma read_rows_ignores_ETmodel:
  "read_rows rt E datefmt rows hr header (self\<lparr>ETmodel := m\<rparr>) =
     map_sum id (\<lambda>s. s\<lparr>ETmodel := m\<rparr>) (read_rows rt E datefmt rows hr header self)"
proof (induction rows arbitrary: self hr header)
  case Nil
  then show ?case by simp
next
  case (Cons row rows)
  have sk: "skip_row row (self\<lparr>ETmodel := m\<rparr>) = (skip_row row self)\<lparr>ETmodel := m\<rparr>"
    by (simp add: skip_row_def)
  show ?case
  proof (cases "data_row rt E datefmt self header row")
    case (Inr self')
    then show ?thesis using Cons.IH by (simp add: data_row_ETmodel)
  next
    case (Inl e)
    then show ?thesis using Cons.IH by (cases e) (simp_all add: data_row_ETmodel sk)
  qed
qed

text \<open>
  C4. The constructor's \<open>ETmodel\<close> is to reach \<open>reference_ET\<close>. It is kept in the object
  and nowhere else: the keyword arguments of the call are \<open>LAT\<close>, \<open>ELEV\<close>,
  \<open>ANGSTA\<close>, \<open>ANGSTB\<close> and the fields of the row, and what the loop does is the same
  for every \<open>ETmodel\<close> (\<open>read_rows_ignores_ETmodel\<close>). On the file below, constructed
  with \<open>P\<close>, the stand-in for \<open>reference_ET\<close> sees no \<open>ETMODEL\<close> and returns its
  triple for the default: the stored values are 2, 1 and 3, not 4, 5 and 6.
\<close>

theorem etmodel_not_passed_on:
  "map_sum id (\<lambda>(fs, s). (ETmodel s, map (\<lambda>(day, w). (day, map_of w ''E0'', map_of w ''ES0'', map_of w ''ET0'')) (store s)))
     (init demo_rt demo_pcse
        (demo_fs (demo_file ''HasSunshine = False\<newline>'' [''20100101,8500,2.0,10.0,1.0,3.0,0.0\<newline>'']))
        100 ''/data/w.csv'' '','' ''%Y%m%d'' ''P'') =
   Inr (''P'', [(PDate (Date 2010 1 1), Some (PFloat (Finite 2)), Some (PFloat (Finite 1)), Some (PFloat (Finite 3)))])"
  by (simp add: init_eval demo_eval model_eval read_meta_lines_unfold cong: bindE_weak_cong)

section \<open>A cache file that does not load\<close>

text \<open>
  C3. A cache file that is newer than the source but fails to load is to count as no
  cache, and the source to be parsed. \<open>_load_cache_file\<close> calls \<open>_load\<close> outside any
  \<open>try\<close>: with a \<open>_load\<close> that raises, construction raises the same exception.
\<close>

theorem cache_load_failure_propagates:
  "init demo_rt (demo_pcse\<lparr>load := \<lambda>fs c self. Inl (OtherError ''UnpicklingError'')\<rparr>)
     (touched_fs 1000) 100 ''/data/w.csv'' '','' ''%Y%m%d'' ''PM'' = Inl (OtherError ''UnpicklingError'')"
  by (simp add: init_eval demo_eval model_eval touched_fs_def demo_pcse_def cong: bindE_weak_cong)

section \<open>The lines of the meta header\<close>





text \<open>
  A line need not only bind names. The line \<open>csv_file.readline()\<close> reads the line after
  it, which the loop then never sees: here the assignment to \<open>Foo\<close> is not run.
\<close>

lemma header_line_can_read_the_file:
  "read_meta_lines demo_pcse 100 []
     \<lparr>locals_of = Map.empty,
      file_of = OpenFile [''csv_file.readline()\<newline>'', ''Foo = 1\<newline>'', ''Elevation = 7\<newline>'',
                          ''## Daily weather data\<newline>'', ''DAY,IRRAD\<newline>''],
      self_of = demo_object, fs_of = Map.empty\<rparr> =
   Inr \<lparr>locals_of = [''Elevation'' \<mapsto> PInt 7],
        file_of = OpenFile [''DAY,IRRAD\<newline>''], self_of = demo_object, fs_of = Map.empty\<rparr>"
  by (simp add: demo_eval startswith_def read_meta_lines_unfold cong: bindE_weak_cong)

section \<open>Exceptions of the external calls\<close>





end
